theory Spec2Isabelle
  imports Complex_Main
begin

section \<open>Strings: the ASCII part of \<open>toUpperCase\<close> and \<open>toLowerCase\<close>\<close>

text \<open>
  The controllers compare and store status strings after \<^verbatim>\<open>status.toUpperCase()\<close>
  and \<^verbatim>\<open>status.toLowerCase()\<close>. Strings are modelled as ASCII text: the 26 letters
  are mapped, every other character is left as it is.
\<close>

definition lower_letters :: string where
  "lower_letters = ''abcdefghijklmnopqrstuvwxyz''"

definition upper_letters :: string where
  "upper_letters = ''ABCDEFGHIJKLMNOPQRSTUVWXYZ''"

definition upper_char :: "char \<Rightarrow> char" where
  "upper_char c = (case map_of (zip lower_letters upper_letters) c of Some u \<Rightarrow> u | None \<Rightarrow> c)"

definition lower_char :: "char \<Rightarrow> char" where
  "lower_char c = (case map_of (zip upper_letters lower_letters) c of Some l \<Rightarrow> l | None \<Rightarrow> c)"

definition toUpperCase :: "string \<Rightarrow> string" where
  "toUpperCase s = map upper_char s"

definition toLowerCase :: "string \<Rightarrow> string" where
  "toLowerCase s = map lower_char s"

section \<open>Data model\<close>

type_synonym user_id = string
type_synonym submission_id = string
type_synonym time = int

text \<open>
  The submitted form data: an object of named fields, \<open>[]\<close> for the empty object
  \<^verbatim>\<open>{}\<close>.
\<close>

type_synonym payload = "(string \<times> string) list"

text \<open>
  One element of \<^verbatim>\<open>form.approvalFlow\<close>. The approver reference is \<open>None\<close> when the
  populated reference is null, in which case
  \<^verbatim>\<open>approverId?._id?.toString() || approverId?.toString()\<close> is undefined.
\<close>

record flow_entry =
  level :: int
  approverId :: "user_id option"

text \<open>One element of \<^verbatim>\<open>approvalHistory\<close> in FormSubmission.model.js.\<close>

record history_entry =
  h_level :: int
  h_approverId :: user_id
  h_status :: string
  comments :: "string option"
  actionedAt :: time

text \<open>
  The fields of the FormSubmission schema that the controllers below read or write.
  \<open>data = None\<close> is a document without the \<^verbatim>\<open>data\<close> field.
\<close>

record submission =
  status :: string
  currentLevel :: int
  approvalHistory :: "history_entry list"
  data :: "payload option"
  submittedAt :: "time option"
  approvedAt :: "time option"
  rejectedAt :: "time option"
  approvedBy :: "user_id option"
  rejectedBy :: "user_id option"

text \<open>The collection of stored submissions, by document id.\<close>

type_synonym store = "submission_id \<Rightarrow> submission option"

text \<open>
  The HTTP outcomes of the controllers: 200 and 201 with the document, 404, 403 with its
  message, 500.
\<close>

datatype response =
    Success submission
  | Created201 submission
  | NotFound404
  | Forbidden403 string
  | ServerError500

subsection \<open>Schema validation on save\<close>

text \<open>
  \<^verbatim>\<open>status: { type: String, enum: ["DRAFT", "PENDING_APPROVAL", "APPROVED", "REJECTED", "SUBMITTED"] }\<close>
  and, for history entries,
  \<^verbatim>\<open>status: { type: String, enum: ["APPROVED", "REJECTED", "SUBMITTED"] }\<close>.
\<close>

definition status_enum :: "string list" where
  "status_enum = [''DRAFT'', ''PENDING_APPROVAL'', ''APPROVED'', ''REJECTED'', ''SUBMITTED'']"

definition history_status_enum :: "string list" where
  "history_status_enum = [''APPROVED'', ''REJECTED'', ''SUBMITTED'']"

text \<open>
  \<^verbatim>\<open>data: { type: mongoose.Schema.Types.Mixed, required: true }\<close>: a document without
  \<^verbatim>\<open>data\<close> is rejected, one whose \<^verbatim>\<open>data\<close> is the empty object is accepted.
  The validators of the schema run on the whole document before it is written: its status
  and the status of every history entry must be values of their enums, and \<^verbatim>\<open>data\<close>
  must be there.
\<close>

definition valid_history :: "history_entry list \<Rightarrow> bool" where
  "valid_history hs \<longleftrightarrow> list_all (\<lambda>h. h_status h \<in> set history_status_enum) hs"

definition validate :: "submission \<Rightarrow> bool" where
  "validate doc \<longleftrightarrow>
     status doc \<in> set status_enum \<and> valid_history (approvalHistory doc) \<and> data doc \<noteq> None"

text \<open>
  The schema keeps the default option \<^verbatim>\<open>minimize\<close>: an empty object is left out of what
  is written to the collection and of the JSON that is answered.
\<close>

definition minimize :: "submission \<Rightarrow> submission" where
  "minimize doc = (if data doc = Some [] then doc\<lparr>data := None\<rparr> else doc)"

text \<open>
  \<^verbatim>\<open>await submission.save()\<close> followed by \<^verbatim>\<open>res.json\<close>: a document that fails a validator
  rejects the save, the controller's \<^verbatim>\<open>catch\<close> answers 500 and nothing is written;
  otherwise the minimized document is written and answered.
\<close>

definition save :: "store \<Rightarrow> submission_id \<Rightarrow> submission \<Rightarrow> response \<times> store" where
  "save db sid doc =
     (if validate doc then (Success (minimize doc), db(sid \<mapsto> minimize doc))
      else (ServerError500, db))"

section \<open>processApproval (approval.controller.js)\<close>

text \<open>The fields of \<^verbatim>\<open>req.body\<close>. \<open>r_status = None\<close> stands for a body whose
  \<^verbatim>\<open>status\<close> is not a string, so that \<^verbatim>\<open>status.toUpperCase()\<close> throws; \<open>r_data = None\<close> for a
  falsy \<^verbatim>\<open>data\<close> (an object, also the empty one, is truthy).\<close>

record approval_request =
  submissionId :: submission_id
  r_status :: "string option"
  r_comments :: "string option"
  r_data :: "payload option"

text \<open>\<^verbatim>\<open>flow.find(f => f.level === n)\<close>: the first entry with that level.\<close>

definition find_level :: "flow_entry list \<Rightarrow> int \<Rightarrow> flow_entry option" where
  "find_level flow n = find (\<lambda>f. level f = n) flow"

text \<open>
  The authorization block: \<open>None\<close> when the caller may act, otherwise the message of the
  403 response.
\<close>

definition check_approver :: "flow_entry list \<Rightarrow> submission \<Rightarrow> user_id \<Rightarrow> string option" where
  "check_approver flow sub userId =
     (if length flow = 0 then None
      else (case find_level flow (currentLevel sub) of
              None \<Rightarrow> Some ''No approver found for this level''
            | Some currentApprover \<Rightarrow>
                (if approverId currentApprover \<noteq> Some userId
                 then Some ''You are not the authorized approver for this level''
                 else None)))"

text \<open>
  The mutation of the loaded document between the authorization block and the save:
  the optional replacement of \<^verbatim>\<open>data\<close>, the push on \<^verbatim>\<open>approvalHistory\<close>, and the
  reject / next level / final approval branches. \<open>now1\<close> is the clock read for
  \<^verbatim>\<open>actionedAt\<close>, \<open>now2\<close> the later read for \<^verbatim>\<open>rejectedAt\<close> or \<^verbatim>\<open>approvedAt\<close>.
\<close>

definition pushed_entry :: "submission \<Rightarrow> user_id \<Rightarrow> string \<Rightarrow> string option \<Rightarrow> time \<Rightarrow> history_entry" where
  "pushed_entry sub userId st cm now1 =
     \<lparr>h_level = currentLevel sub, h_approverId = userId, h_status = toUpperCase st,
      comments = cm, actionedAt = now1\<rparr>"

definition apply_action ::
  "flow_entry list \<Rightarrow> submission \<Rightarrow> user_id \<Rightarrow> string \<Rightarrow> string option \<Rightarrow> payload option \<Rightarrow> time \<Rightarrow> time \<Rightarrow> submission" where
  "apply_action flow sub userId st cm dt now1 now2 =
     (let s1 = (case dt of Some d \<Rightarrow> sub\<lparr>data := Some d\<rparr> | None \<Rightarrow> sub);
          s2 = s1\<lparr>approvalHistory := approvalHistory s1 @ [pushed_entry s1 userId st cm now1]\<rparr>
      in if toLowerCase st = ''rejected''
         then s2\<lparr>status := ''REJECTED'', rejectedAt := Some now2, rejectedBy := Some userId\<rparr>
         else (let nextLevel = currentLevel s2 + 1 in
               case find_level flow nextLevel of
                 Some nextLevelEntry \<Rightarrow>
                   s2\<lparr>currentLevel := nextLevel, status := ''PENDING_APPROVAL''\<rparr>
               | None \<Rightarrow>
                   s2\<lparr>status := ''APPROVED'', approvedAt := Some now2, approvedBy := Some userId,
                      currentLevel := int (length flow) + 1\<rparr>))"

text \<open>
  The controller. \<open>flow\<close> is the value of \<^verbatim>\<open>form?.approvalFlow || []\<close> for the
  submission's populated template, \<open>userId\<close> is \<^verbatim>\<open>req.user.userId\<close>. The result is the
  response and the collection after the call. Ids are well-formed document ids. The e-mail
  notifications are sent to other services and change neither the document nor the
  response; they are left out.
\<close>

definition processApproval ::
  "flow_entry list \<Rightarrow> store \<Rightarrow> user_id \<Rightarrow> approval_request \<Rightarrow> time \<Rightarrow> time \<Rightarrow> response \<times> store" where
  "processApproval flow db userId req now1 now2 =
     (case db (submissionId req) of
        None \<Rightarrow> (NotFound404, db)
      | Some sub \<Rightarrow>
          (case check_approver flow sub userId of
             Some msg \<Rightarrow> (Forbidden403 msg, db)
           | None \<Rightarrow>
               (case r_status req of
                  None \<Rightarrow> (ServerError500, db)
                | Some st \<Rightarrow>
                    save db (submissionId req)
                      (apply_action flow sub userId st (r_comments req) (r_data req) now1 now2))))"

text \<open>
  A submission's lifetime under the controller: calls made one after the other, each with
  the approval flow its template has at that moment (\<^verbatim>\<open>updateForm\<close> may replace the flow
  between two calls), the caller, the body and the two clock reads.
\<close>

record action_call =
  a_flow :: "flow_entry list"
  a_user :: user_id
  a_req :: approval_request
  a_now1 :: time
  a_now2 :: time

definition call :: "store \<Rightarrow> action_call \<Rightarrow> response \<times> store" where
  "call db c = processApproval (a_flow c) db (a_user c) (a_req c) (a_now1 c) (a_now2 c)"

text \<open>The responses of the calls in order.\<close>

fun responses :: "store \<Rightarrow> action_call list \<Rightarrow> response list" where
  "responses db [] = []"
| "responses db (c # cs) = fst (call db c) # responses (snd (call db c)) cs"

text \<open>The collection before the first call and after each call.\<close>

fun trajectory :: "store \<Rightarrow> action_call list \<Rightarrow> store list" where
  "trajectory db [] = [db]"
| "trajectory db (c # cs) = db # trajectory (snd (call db c)) cs"

text \<open>
  The shape \<^verbatim>\<open>createForm\<close> and \<^verbatim>\<open>updateForm\<close> give a flow (\<^verbatim>\<open>level: index + 1\<close>): the
  levels are 1, 2, ... in order.
\<close>

definition contiguous :: "flow_entry list \<Rightarrow> bool" where
  "contiguous flow \<longleftrightarrow> map level flow = [1 .. int (length flow)]"

section \<open>createSubmission (submission.controller.js)\<close>

text \<open>
  The template found by \<^verbatim>\<open>FormTemplate.findById\<close> or \<^verbatim>\<open>Form.findById\<close>: a field is
  \<open>None\<close> when the document does not have it.
\<close>

record template =
  workflow :: "flow_entry list option"
  approvalFlow :: "flow_entry list option"

text \<open>\<^verbatim>\<open>template.workflow || template.approvalFlow || []\<close>; an array, also an empty one, is truthy.\<close>

definition template_workflow :: "template \<Rightarrow> flow_entry list" where
  "template_workflow t =
     (case workflow t of
        Some w \<Rightarrow> w
      | None \<Rightarrow> (case approvalFlow t of Some a \<Rightarrow> a | None \<Rightarrow> []))"

text \<open>
  \<^verbatim>\<open>req.body.data\<close>: a string that \<^verbatim>\<open>JSON.parse\<close> rejects, no data at all, or the parsed
  object. The request carries no uploaded files.
\<close>

datatype body_data = Unparsable | NoData | Parsed payload

record create_request =
  c_data :: body_data
  requestedStatus :: "string option"

text \<open>
  \<open>found\<close> is the template lookup, \<open>newId\<close> the id of the created document, \<open>now\<close> the
  schema default of \<^verbatim>\<open>submittedAt\<close>. \<^verbatim>\<open>requestedStatus || "PENDING_APPROVAL"\<close> takes the
  default for a missing or empty string. \<^verbatim>\<open>FormSubmission.create\<close> rejects a document
  without \<^verbatim>\<open>data\<close> (\<^verbatim>\<open>required: true\<close>) and writes the minimized document;
  \<^verbatim>\<open>approvalHistory\<close> starts as the empty array.
\<close>

definition createSubmission ::
  "template option \<Rightarrow> store \<Rightarrow> submission_id \<Rightarrow> create_request \<Rightarrow> time \<Rightarrow> response \<times> store" where
  "createSubmission found db newId req now =
     (case c_data req of
        Unparsable \<Rightarrow> (ServerError500, db)
      | parsedData \<Rightarrow>
          (case found of
             None \<Rightarrow> (NotFound404, db)
           | Some t \<Rightarrow>
               (let wflow = template_workflow t;
                    hasFlow = (length wflow > 0);
                    finalStatus0 = (case requestedStatus req of
                                      None \<Rightarrow> ''PENDING_APPROVAL''
                                    | Some r \<Rightarrow> if r = [] then ''PENDING_APPROVAL'' else r);
                    finalStatus = (if finalStatus0 \<noteq> ''DRAFT''
                                   then (if hasFlow then ''PENDING_APPROVAL'' else ''APPROVED'')
                                   else finalStatus0)
                in case parsedData of
                     Parsed d \<Rightarrow>
                       (let newSubmission =
                          \<lparr>status = finalStatus,
                           currentLevel = (if finalStatus = ''PENDING_APPROVAL'' then 1 else 0),
                           approvalHistory = [], data = Some d, submittedAt = Some now,
                           approvedAt = None, rejectedAt = None, approvedBy = None,
                           rejectedBy = None\<rparr>
                        in (Created201 (minimize newSubmission),
                            db(newId \<mapsto> minimize newSubmission)))
                   | _ \<Rightarrow> (ServerError500, db))))"

section \<open>updateStatus (submission.controller.js)\<close>

record status_request =
  u_status :: "string option"
  u_comments :: "string option"

text \<open>
  \<open>u_status = None\<close>: \<^verbatim>\<open>status.toUpperCase()\<close> throws before the lookup. \<open>now1\<close> is the
  clock read for \<^verbatim>\<open>updateData.approvedAt\<close> / \<^verbatim>\<open>rejectedAt\<close>, made before the lookup,
  \<open>now2\<close> the read for \<^verbatim>\<open>actionedAt\<close>. \<^verbatim>\<open>comments || ""\<close> stores the empty string for a
  missing comment. The route checks authentication only; the flow is never read.
\<close>

definition updateStatus ::
  "store \<Rightarrow> submission_id \<Rightarrow> user_id \<Rightarrow> status_request \<Rightarrow> time \<Rightarrow> time \<Rightarrow> response \<times> store" where
  "updateStatus db sid userId req now1 now2 =
     (case u_status req of
        None \<Rightarrow> (ServerError500, db)
      | Some st \<Rightarrow>
          (let newStatus = toUpperCase st in
           case db sid of
             None \<Rightarrow> (NotFound404, db)
           | Some sub \<Rightarrow>
               (let pushed = \<lparr>h_level = currentLevel sub, h_approverId = userId,
                              h_status = newStatus,
                              comments = Some (case u_comments req of None \<Rightarrow> [] | Some c \<Rightarrow> c),
                              actionedAt = now2\<rparr>;
                    s1 = sub\<lparr>approvalHistory := approvalHistory sub @ [pushed]\<rparr>;
                    s2 = s1\<lparr>status := newStatus\<rparr>;
                    s3 = (if newStatus = ''APPROVED''
                          then s2\<lparr>approvedAt := Some now1, approvedBy := Some userId\<rparr>
                          else if newStatus = ''REJECTED''
                          then s2\<lparr>rejectedAt := Some now1, rejectedBy := Some userId\<rparr>
                          else s2)
                in save db sid s3)))"

section \<open>getTemplateAnalytics (submission.controller.js)\<close>

record level_stat =
  ls_level :: int
  ls_approved :: nat
  ls_total :: nat

text \<open>The strings of \<^verbatim>\<open>formatTime\<close>: "N/A", "{h}h", "{d}d" and "{d}d {h}h".\<close>

datatype time_label = NA | Hours int | Days int | DaysHours int int

record analytics =
  total :: nat
  approved :: nat
  pending :: nat
  rejected :: nat
  levelStats :: "level_stat list"
  avgApprovalTime :: time_label
  completionRate :: int

text \<open>
  \<^verbatim>\<open>submissions.filter(sub => sub.approvalHistory.some(h => h.level === level && h.status === "APPROVED")).length\<close>;
  a document without the array counts like one with the empty array.
\<close>

definition approvedAtLevel :: "submission list \<Rightarrow> int \<Rightarrow> nat" where
  "approvedAtLevel submissions lv =
     length (filter (\<lambda>sub. list_ex (\<lambda>h. h_level h = lv \<and> h_status h = ''APPROVED'')
                                      (approvalHistory sub)) submissions)"

text \<open>\<^verbatim>\<open>s.status === "APPROVED" && s.approvedAt && s.submittedAt\<close>\<close>

definition approvedSubmissions :: "submission list \<Rightarrow> submission list" where
  "approvedSubmissions submissions =
     filter (\<lambda>s. status s = ''APPROVED'' \<and> approvedAt s \<noteq> None \<and> submittedAt s \<noteq> None) submissions"

definition duration :: "submission \<Rightarrow> int" where
  "duration sub = (case (approvedAt sub, submittedAt sub) of
                     (Some a, Some s) \<Rightarrow> a - s
                   | _ \<Rightarrow> 0)"

text \<open>
  The numbers of the source are doubles; the quotients below are taken in exact rational
  arithmetic. A double quotient differs from the exact one by a relative error of about
  \<open>2\<^sup>-\<^sup>5\<^sup>2\<close>, which can change the result of \<^verbatim>\<open>Math.round\<close> or \<^verbatim>\<open>Math.floor\<close> only when
  the exact value lies on a rounding boundary.
\<close>

definition avgApprovalTimeMs :: "submission list \<Rightarrow> rat" where
  "avgApprovalTimeMs submissions =
     (let as = approvedSubmissions submissions in
      if length as > 0
      then of_int (foldl (\<lambda>acc sub. acc + duration sub) 0 as) / of_nat (length as)
      else 0)"

definition formatTime :: "rat \<Rightarrow> time_label" where
  "formatTime ms =
     (if ms = 0 then NA
      else (let hours = \<lfloor>ms / (1000 * 60 * 60)\<rfloor> in
            if hours < 24 then Hours hours
            else (let days = hours div 24; remainingHours = hours mod 24 in
                  if remainingHours > 0 then DaysHours days remainingHours else Days days)))"

text \<open>\<^verbatim>\<open>Math.round(x)\<close> is the floor of \<open>x + 1/2\<close>.\<close>

definition math_round :: "rat \<Rightarrow> int" where
  "math_round x = \<lfloor>x + 1 / 2\<rfloor>"

text \<open>
  \<open>submissions\<close> is the result of the query, \<open>wflow\<close> the value of
  \<^verbatim>\<open>template?.workflow || template?.approvalFlow || []\<close>.
\<close>

definition getTemplateAnalytics :: "submission list \<Rightarrow> flow_entry list \<Rightarrow> analytics" where
  "getTemplateAnalytics submissions wflow =
     (let n = length submissions;
          appr = length (filter (\<lambda>s. status s = ''APPROVED'') submissions);
          totalLevels = length wflow
      in \<lparr>total = n,
          approved = appr,
          pending = length (filter (\<lambda>s. status s \<in> set [''PENDING_APPROVAL'', ''IN_PROGRESS'']) submissions),
          rejected = length (filter (\<lambda>s. status s = ''REJECTED'') submissions),
          levelStats = map (\<lambda>lv. \<lparr>ls_level = lv, ls_approved = approvedAtLevel submissions lv,
                                   ls_total = n\<rparr>) [1 .. int totalLevels],
          avgApprovalTime = formatTime (avgApprovalTimeMs submissions),
          completionRate = (if n > 0 then math_round ((of_nat appr / of_nat n) * 100) else 0)\<rparr>)"

section \<open>The scenario of the specification\<close>

text \<open>
  Two levels, approver A at level 1 and approver B at level 2; one submission \<open>s1\<close> as
  \<^verbatim>\<open>createSubmission\<close> leaves it for this flow.
\<close>

definition flow_AB :: "flow_entry list" where
  "flow_AB = [\<lparr>level = 1, approverId = Some ''A''\<rparr>, \<lparr>level = 2, approverId = Some ''B''\<rparr>]"

definition pending_sub :: submission where
  "pending_sub = \<lparr>status = ''PENDING_APPROVAL'', currentLevel = 1, approvalHistory = [],
     data = Some [(''field'', ''value'')], submittedAt = Some 1000, approvedAt = None,
     rejectedAt = None, approvedBy = None, rejectedBy = None\<rparr>"

definition db_one :: store where
  "db_one = Map.empty(''s1'' \<mapsto> pending_sub)"

definition approve_req :: approval_request where
  "approve_req = \<lparr>submissionId = ''s1'', r_status = Some ''approved'', r_comments = Some ''ok'',
     r_data = None\<rparr>"

definition reject_req :: approval_request where
  "reject_req = \<lparr>submissionId = ''s1'', r_status = Some ''Rejected'', r_comments = Some ''no'',
     r_data = None\<rparr>"

text \<open>The document a response carries, if any.\<close>

definition saved_doc :: "response \<Rightarrow> submission option" where
  "saved_doc r = (case r of Success s \<Rightarrow> Some s | Created201 s \<Rightarrow> Some s | _ \<Rightarrow> None)"

text \<open>The whole hours a label of \<^verbatim>\<open>formatTime\<close> shows; none for "N/A".\<close>

definition label_hours :: "time_label \<Rightarrow> int option" where
  "label_hours l = (case l of NA \<Rightarrow> None | Hours h \<Rightarrow> Some h | Days d \<Rightarrow> Some (24 * d)
                    | DaysHours d h \<Rightarrow> Some (24 * d + h))"

text \<open>
  Three submissions of the two-level form: one approved at both levels two hours after it
  was submitted, one still pending at level 1, one rejected at level 1.
\<close>

definition three_subs :: "submission list" where
  "three_subs =
     [pending_sub\<lparr>status := ''APPROVED'', currentLevel := 3,
        approvalHistory :=
          [\<lparr>h_level = 1, h_approverId = ''A'', h_status = ''APPROVED'', comments = None,
            actionedAt = 2000\<rparr>,
           \<lparr>h_level = 2, h_approverId = ''B'', h_status = ''APPROVED'', comments = None,
            actionedAt = 3000\<rparr>],
        approvedAt := Some 7201000, approvedBy := Some ''B''\<rparr>,
      pending_sub,
      pending_sub\<lparr>status := ''REJECTED'',
        approvalHistory :=
          [\<lparr>h_level = 1, h_approverId = ''A'', h_status = ''REJECTED'', comments = None,
            actionedAt = 2000\<rparr>],
        rejectedAt := Some 2001, rejectedBy := Some ''A''\<rparr>]"

text \<open>A form whose flow is \<open>flow_AB\<close>, and a request to create a submission of it.\<close>

definition form_AB :: template where
  "form_AB = \<lparr>workflow = None, approvalFlow = Some flow_AB\<rparr>"

definition create_req :: create_request where
  "create_req = \<lparr>c_data = Parsed [(''field'', ''value'')], requestedStatus = None\<rparr>"



text \<open>
  Calls on \<open>s1\<close>: A approves and A rejects while the form has its two levels; B
  approves after \<^verbatim>\<open>updateForm\<close> has added a third level; someone else approves after
  \<^verbatim>\<open>updateForm\<close> has emptied the flow.
\<close>

definition approve_by_A :: action_call where
  "approve_by_A = \<lparr>a_flow = flow_AB, a_user = ''A'', a_req = approve_req, a_now1 = 2000,
     a_now2 = 2001\<rparr>"

definition reject_by_A :: action_call where
  "reject_by_A = \<lparr>a_flow = flow_AB, a_user = ''A'', a_req = reject_req, a_now1 = 2000,
     a_now2 = 2001\<rparr>"

definition approve_by_B_longer :: action_call where
  "approve_by_B_longer =
     \<lparr>a_flow = flow_AB @ [\<lparr>level = 3, approverId = Some ''C''\<rparr>], a_user = ''B'',
      a_req = approve_req, a_now1 = 3000, a_now2 = 3001\<rparr>"

definition approve_without_flow :: action_call where
  "approve_without_flow = \<lparr>a_flow = [], a_user = ''X'', a_req = approve_req, a_now1 = 3000,
     a_now2 = 3001\<rparr>"

section \<open>Basic facts\<close>

lemmas letter_defs = upper_char_def lower_char_def lower_letters_def upper_letters_def

lemmas case_defs = toUpperCase_def toLowerCase_def letter_defs

lemmas scenario_defs = flow_AB_def pending_sub_def db_one_def approve_req_def reject_req_def

lemmas call_defs = approve_by_A_def reject_by_A_def approve_by_B_longer_def
  approve_without_flow_def call_def



lemma find_level_None: "find_level flow n = None \<longleftrightarrow> \<not> (\<exists>f \<in> set flow. level f = n)"
  by (auto simp add: find_level_def find_None_iff)


lemma valid_history_append:
  "valid_history (hs @ [e]) \<longleftrightarrow> valid_history hs \<and> h_status e \<in> set history_status_enum"
  by (auto simp: valid_history_def)

lemma valid_history_Nil: "valid_history []"
  by (simp add: valid_history_def)

lemmas save_defs = save_def validate_def minimize_def valid_history_append

lemma minimize_fields [simp]:
  "status (minimize doc) = status doc"
  "currentLevel (minimize doc) = currentLevel doc"
  "approvalHistory (minimize doc) = approvalHistory doc"
  "approvedAt (minimize doc) = approvedAt doc"
  "approvedBy (minimize doc) = approvedBy doc"
  "rejectedAt (minimize doc) = rejectedAt doc"
  "rejectedBy (minimize doc) = rejectedBy doc"
  "submittedAt (minimize doc) = submittedAt doc"
  by (simp_all add: minimize_def)


text \<open>
  Every document a controller stores has a status and a history that satisfy the schema, so
  the stored submissions the statements below start from have a valid history. It may lack
  its \<^verbatim>\<open>data\<close>.
\<close>

lemma stored_documents_valid:
  "processApproval flow db userId req now1 now2 = (Success doc, db') \<Longrightarrow>
     status doc \<in> set status_enum \<and> valid_history (approvalHistory doc)"
  "updateStatus db sid userId sreq now1 now2 = (Success doc, db') \<Longrightarrow>
     status doc \<in> set status_enum \<and> valid_history (approvalHistory doc)"
  "createSubmission found db newId creq now = (Created201 doc, db') \<Longrightarrow>
     status doc \<in> set status_enum \<and> valid_history (approvalHistory doc)"
  by (auto simp: processApproval_def updateStatus_def createSubmission_def save_def Let_def
        validate_def valid_history_Nil status_enum_def
      split: option.splits if_splits body_data.splits)


section \<open>processApproval: one call\<close>







text \<open>
  C3. The flow is not empty and the caller is not the approver of the flow entry at the
  submission's current level. Then the call, whatever its action, answers 403 and the
  collection is the one before the call: nothing is saved, so the history, the status, the
  level, the data and every timestamp and identity field of the submission are unchanged.
\<close>

theorem unauthorized_leaves_unmodified:
  assumes found: "db (submissionId req) = Some sub"
    and nonempty: "flow \<noteq> []"
    and other: "\<not> (\<exists>entry. find_level flow (currentLevel sub) = Some entry
                        \<and> approverId entry = Some userId)"
  shows "\<exists>msg. processApproval flow db userId req now1 now2 = (Forbidden403 msg, db)"
  using assms
  by (auto simp: processApproval_def check_approver_def split: option.splits)

theorem unauthorized_leaves_unmodified_witness:
  "db_one (submissionId approve_req) = Some pending_sub \<and> flow_AB \<noteq> [] \<and>
   \<not> (\<exists>entry. find_level flow_AB (currentLevel pending_sub) = Some entry
               \<and> approverId entry = Some ''B'') \<and>
   (\<exists>msg. processApproval flow_AB db_one ''B'' approve_req 2000 2001 = (Forbidden403 msg, db_one))"
proof -
  have h1: "db_one (submissionId approve_req) = Some pending_sub"
    by (simp add: scenario_defs)
  have h2: "flow_AB \<noteq> []"
    by (simp add: flow_AB_def)
  have h3: "\<not> (\<exists>entry. find_level flow_AB (currentLevel pending_sub) = Some entry
               \<and> approverId entry = Some ''B'')"
    by (simp add: scenario_defs find_level_def)
  from unauthorized_leaves_unmodified [where db = db_one and req = approve_req
      and ?now1.0 = 2000 and ?now2.0 = 2001, OF h1 h2 h3] h1 h2 h3
  show ?thesis by blast
qed

text \<open>
  C6. The flow is not empty and has no entry whose level is the submission's current
  level (as after the flow was replaced by a shorter one). Then the call answers 403
  "No approver found for this level" and the collection is the one before the call: no
  advance, no history entry, no change of status or level.
\<close>

theorem missing_level_fails_closed:
  assumes found: "db (submissionId req) = Some sub"
    and nonempty: "flow \<noteq> []"
    and missing: "\<not> (\<exists>f \<in> set flow. level f = currentLevel sub)"
  shows "processApproval flow db userId req now1 now2 =
           (Forbidden403 ''No approver found for this level'', db)"
proof -
  have "find_level flow (currentLevel sub) = None"
    using missing by (simp add: find_level_None)
  then show ?thesis
    using found nonempty by (simp add: processApproval_def check_approver_def)
qed

theorem missing_level_fails_closed_witness:
  "db_one (submissionId approve_req) = Some pending_sub \<and>
   [\<lparr>level = 2, approverId = Some ''B''\<rparr>] \<noteq> [] \<and>
   \<not> (\<exists>f \<in> set [\<lparr>level = 2, approverId = Some ''B''\<rparr>]. level f = currentLevel pending_sub) \<and>
   processApproval [\<lparr>level = 2, approverId = Some ''B''\<rparr>] db_one ''B'' approve_req 2000 2001 =
     (Forbidden403 ''No approver found for this level'', db_one)"
proof -
  have h1: "db_one (submissionId approve_req) = Some pending_sub"
    by (simp add: scenario_defs)
  have h2: "[\<lparr>level = 2, approverId = Some ''B''\<rparr>] \<noteq> []"
    by simp
  have h3: "\<not> (\<exists>f \<in> set [\<lparr>level = 2, approverId = Some ''B''\<rparr>]. level f = currentLevel pending_sub)"
    by (simp add: pending_sub_def)
  from missing_level_fails_closed [where db = db_one and req = approve_req
      and userId = "''B''" and ?now1.0 = 2000 and ?now2.0 = 2001, OF h1 h2 h3] h1 h2 h3
  show ?thesis by blast
qed




section \<open>createSubmission: the initial state\<close>

text \<open>
  C5. For a template that exists and a body with data, the created submission has an empty
  history; with requested status DRAFT it has status DRAFT and level 0; otherwise, with a
  non-empty flow, status PENDING_APPROVAL and level 1, and with an empty flow status APPROVED
  and level 0.
\<close>

theorem createSubmission_initial_state:
  assumes parsed: "c_data req = Parsed d"
  shows "\<exists>sub'. createSubmission (Some t) db newId req now =
                   (Created201 sub', db(newId \<mapsto> sub')) \<and>
           approvalHistory sub' = [] \<and>
           (if requestedStatus req = Some ''DRAFT''
            then status sub' = ''DRAFT'' \<and> currentLevel sub' = 0
            else if template_workflow t \<noteq> []
            then status sub' = ''PENDING_APPROVAL'' \<and> currentLevel sub' = 1
            else status sub' = ''APPROVED'' \<and> currentLevel sub' = 0)"
  using parsed
  by (cases "requestedStatus req") (auto simp: createSubmission_def Let_def)

theorem createSubmission_initial_state_witness:
  "c_data create_req = Parsed [(''field'', ''value'')] \<and>
   (\<exists>sub'. createSubmission (Some form_AB) Map.empty ''s1'' create_req 1000 =
             (Created201 sub', Map.empty(''s1'' \<mapsto> sub')) \<and>
           approvalHistory sub' = [] \<and> status sub' = ''PENDING_APPROVAL'' \<and>
           currentLevel sub' = 1)"
proof -
  have h1: "c_data create_req = Parsed [(''field'', ''value'')]"
    by (simp add: create_req_def)
  have flow: "template_workflow form_AB \<noteq> []" "requestedStatus create_req \<noteq> Some ''DRAFT''"
    by (simp_all add: template_workflow_def form_AB_def flow_AB_def create_req_def)
  from createSubmission_initial_state [where req = create_req and t = form_AB
      and db = Map.empty and newId = "''s1''" and now = 1000, OF h1] flow
  have "\<exists>sub'. createSubmission (Some form_AB) Map.empty ''s1'' create_req 1000 =
             (Created201 sub', Map.empty(''s1'' \<mapsto> sub')) \<and>
           approvalHistory sub' = [] \<and> status sub' = ''PENDING_APPROVAL'' \<and>
           currentLevel sub' = 1"
    by simp
  with h1 show ?thesis by simp
qed

section \<open>updateStatus: the second way to change a submission\<close>




section \<open>processApproval over a submission's lifetime\<close>

lemma contiguous_levels:
  assumes "contiguous flow"
  shows "(\<exists>f \<in> set flow. level f = n) \<longleftrightarrow> 1 \<le> n \<and> n \<le> int (length flow)"
proof -
  have "set (map level flow) = {1 .. int (length flow)}"
    using assms by (simp add: contiguous_def)
  then have "n \<in> level ` set flow \<longleftrightarrow> n \<in> {1 .. int (length flow)}"
    by simp
  then show ?thesis by auto
qed

lemma contiguous_flow_AB: "contiguous flow_AB"
  by (simp add: contiguous_def flow_AB_def upto.simps)

lemma no_entry_beyond:
  assumes "contiguous flow" "int (length flow) < n"
  shows "find_level flow n = None"
  using contiguous_levels [OF assms(1), of n] assms(2) by (simp add: find_level_None)








text \<open>
  C4. A submission whose level is beyond the last level of a non-empty flow with levels
  1, 2, ... (the state the final approval leaves) accepts no further action: every call on
  it answers 403 "No approver found for this level" and the collection after each call is
  the one before the first.
\<close>

theorem past_last_level_terminal:
  assumes calls: "\<forall>c \<in> set cs. a_flow c = flow \<and> submissionId (a_req c) = sid"
    and wf: "contiguous flow" and nonempty: "flow \<noteq> []"
    and start: "db sid = Some sub"
    and past: "int (length flow) < currentLevel sub"
  shows "responses db cs = replicate (length cs) (Forbidden403 ''No approver found for this level'')
       \<and> trajectory db cs = replicate (Suc (length cs)) db"
  using calls
proof (induction cs)
  case Nil
  then show ?case by simp
next
  case (Cons c cs)
  have "find_level flow (currentLevel sub) = None"
    using wf past by (rule no_entry_beyond)
  then have "call db c = (Forbidden403 ''No approver found for this level'', db)"
    using Cons.prems start nonempty
    by (simp add: call_def processApproval_def check_approver_def)
  then show ?case using Cons by simp
qed

theorem past_last_level_terminal_witness:
  "contiguous flow_AB \<and> flow_AB \<noteq> [] \<and>
   (Map.empty(''s1'' \<mapsto> hd three_subs)) ''s1'' = Some (hd three_subs) \<and>
   int (length flow_AB) < currentLevel (hd three_subs) \<and>
   responses (Map.empty(''s1'' \<mapsto> hd three_subs)) [approve_by_A, reject_by_A] =
     [Forbidden403 ''No approver found for this level'',
      Forbidden403 ''No approver found for this level''] \<and>
   trajectory (Map.empty(''s1'' \<mapsto> hd three_subs)) [approve_by_A, reject_by_A] =
     [Map.empty(''s1'' \<mapsto> hd three_subs), Map.empty(''s1'' \<mapsto> hd three_subs),
      Map.empty(''s1'' \<mapsto> hd three_subs)]"
proof -
  have h1: "\<forall>c \<in> set [approve_by_A, reject_by_A].
              a_flow c = flow_AB \<and> submissionId (a_req c) = ''s1''"
    by (simp add: approve_by_A_def reject_by_A_def approve_req_def reject_req_def)
  have h3: "flow_AB \<noteq> []"
    by (simp add: flow_AB_def)
  have h4: "(Map.empty(''s1'' \<mapsto> hd three_subs)) ''s1'' = Some (hd three_subs)"
    by simp
  have h5: "int (length flow_AB) < currentLevel (hd three_subs)"
    by (simp add: flow_AB_def three_subs_def)
  note stuck = past_last_level_terminal [where db = "Map.empty(''s1'' \<mapsto> hd three_subs)"
      and sid = "''s1''" and cs = "[approve_by_A, reject_by_A]",
      OF h1 contiguous_flow_AB h3 h4 h5]
  have two: "replicate (length [approve_by_A, reject_by_A]) x = [x, x]"
    "replicate (Suc (length [approve_by_A, reject_by_A])) y = [y, y, y]" for x :: response and y :: store
    by simp_all
  from stuck have "responses (Map.empty(''s1'' \<mapsto> hd three_subs)) [approve_by_A, reject_by_A] =
     [Forbidden403 ''No approver found for this level'',
      Forbidden403 ''No approver found for this level'']"
    and "trajectory (Map.empty(''s1'' \<mapsto> hd three_subs)) [approve_by_A, reject_by_A] =
     [Map.empty(''s1'' \<mapsto> hd three_subs), Map.empty(''s1'' \<mapsto> hd three_subs),
      Map.empty(''s1'' \<mapsto> hd three_subs)]"
    unfolding two by (rule conjunct1, rule conjunct2)
  with contiguous_flow_AB h3 h4 h5 show ?thesis by blast
qed

text \<open>
  C4, as first stated for a rejected submission: A rejects at level 1, the status is
  REJECTED; A then approves, the call succeeds and the submission is pending at level 2.
\<close>

theorem rejected_not_terminal_counterexample:
  "map (map_option status \<circ> saved_doc) (responses db_one [reject_by_A, approve_by_A]) =
     [Some ''REJECTED'', Some ''PENDING_APPROVAL''] \<and>
   map (map_option currentLevel \<circ> saved_doc) (responses db_one [reject_by_A, approve_by_A]) =
     [Some 1, Some 2]"
  by (simp add: call_defs scenario_defs processApproval_def check_approver_def find_level_def
        save_defs valid_history_def apply_action_def pushed_entry_def case_defs
        history_status_enum_def
        status_enum_def saved_doc_def Let_def)

section \<open>getTemplateAnalytics: the level statistics\<close>

lemma foldl_duration: "foldl (\<lambda>acc sub. acc + duration sub) a xs = a + sum_list (map duration xs)"
  by (induction xs arbitrary: a) simp_all

lemma math_round_near: "\<bar>of_int (math_round x) - x\<bar> \<le> 1 / 2"
  unfolding math_round_def by linarith

lemma floor_rat_numeral: "\<lfloor>(numeral a :: rat) / numeral b\<rfloor> = numeral a div numeral b"
  using floor_divide_of_int_eq [of "numeral a" "numeral b", where ?'a = rat] by simp

lemma whole_days: "\<not> 0 < (h::int) mod 24 \<Longrightarrow> 24 * (h div 24) = h"
  by presburger

lemma formatTime_hours:
  "label_hours (formatTime ms) = (if ms = 0 then None else Some \<lfloor>ms / 3600000\<rfloor>)"
  by (simp add: formatTime_def label_hours_def Let_def whole_days)

lemma count_filter: "length (filter P xs) = card {i. i < length xs \<and> P (xs ! i)}"
  by (rule length_filter_conv_card)

lemma duration_both:
  "approvedAt s \<noteq> None \<Longrightarrow> submittedAt s \<noteq> None \<Longrightarrow>
   duration s = the (approvedAt s) - the (submittedAt s)"
  by (auto simp: duration_def)

lemma levelStats_nth:
  assumes "1 \<le> L" "L \<le> int (length wflow)"
  shows "levelStats (getTemplateAnalytics submissions wflow) ! nat (L - 1) =
           \<lparr>ls_level = L, ls_approved = approvedAtLevel submissions L, ls_total = length submissions\<rparr>"
proof -
  have "nat (L - 1) < length [1 .. int (length wflow)]" using assms by simp
  moreover have "[1 .. int (length wflow)] ! nat (L - 1) = L" using assms by simp
  ultimately show ?thesis
    by (simp add: getTemplateAnalytics_def Let_def)
qed

text \<open>
  C8. The statistics are a function of the submissions read and of the flow, and nothing
  is written. There is one row per level L from 1 to the flow's length; its approved count
  is the number of submissions whose history has an entry with level L and status APPROVED,
  its total the number of submissions. The completion rate is 0 when there is no
  submission, and otherwise the whole number nearest to the percentage
  \<open>100 * approved / total\<close>, where \<open>approved\<close> counts the submissions with status APPROVED.
  The average approval time is the mean of \<open>approvedAt - submittedAt\<close> over the submissions
  with status APPROVED that carry both timestamps, 0 when there is none; the answer shows
  "N/A" for 0 and otherwise the whole hours of that mean.
\<close>

theorem level_stats_derivation:
  "length (levelStats (getTemplateAnalytics submissions wflow)) = length wflow
   \<and> (\<forall>L. 1 \<le> L \<and> L \<le> int (length wflow) \<longrightarrow>
        levelStats (getTemplateAnalytics submissions wflow) ! nat (L - 1) =
          \<lparr>ls_level = L,
           ls_approved = card {i. i < length submissions \<and>
              (\<exists>h \<in> set (approvalHistory (submissions ! i)). h_level h = L \<and> h_status h = ''APPROVED'')},
           ls_total = length submissions\<rparr>)
   \<and> total (getTemplateAnalytics submissions wflow) = length submissions
   \<and> approved (getTemplateAnalytics submissions wflow) =
        card {i. i < length submissions \<and> status (submissions ! i) = ''APPROVED''}
   \<and> (if submissions = [] then completionRate (getTemplateAnalytics submissions wflow) = 0
       else \<bar>of_int (completionRate (getTemplateAnalytics submissions wflow))
              - 100 * (of_nat (approved (getTemplateAnalytics submissions wflow))
                       / of_nat (total (getTemplateAnalytics submissions wflow)))\<bar> \<le> (1 / 2 :: rat))
   \<and> avgApprovalTimeMs submissions =
        (let timed = filter (\<lambda>s. status s = ''APPROVED'' \<and> approvedAt s \<noteq> None \<and> submittedAt s \<noteq> None)
                       submissions
         in if timed = [] then 0
            else of_int (\<Sum>s\<leftarrow>timed. the (approvedAt s) - the (submittedAt s)) / of_nat (length timed))
   \<and> label_hours (avgApprovalTime (getTemplateAnalytics submissions wflow)) =
        (if avgApprovalTimeMs submissions = 0 then None
         else Some \<lfloor>avgApprovalTimeMs submissions / 3600000\<rfloor>)"
proof -
  let ?r = "getTemplateAnalytics submissions wflow"
  have len: "length (levelStats ?r) = length wflow"
    by (simp add: getTemplateAnalytics_def Let_def)
  have rows: "\<forall>L. 1 \<le> L \<and> L \<le> int (length wflow) \<longrightarrow>
        levelStats ?r ! nat (L - 1) =
          \<lparr>ls_level = L,
           ls_approved = card {i. i < length submissions \<and>
              (\<exists>h \<in> set (approvalHistory (submissions ! i)). h_level h = L \<and> h_status h = ''APPROVED'')},
           ls_total = length submissions\<rparr>"
    by (simp add: levelStats_nth approvedAtLevel_def count_filter list_ex_iff)
  have tot: "total ?r = length submissions"
    by (simp add: getTemplateAnalytics_def Let_def)
  have appr: "approved ?r = card {i. i < length submissions \<and> status (submissions ! i) = ''APPROVED''}"
    by (simp add: getTemplateAnalytics_def Let_def count_filter)
  have rate: "if submissions = [] then completionRate ?r = 0
       else \<bar>of_int (completionRate ?r) - 100 * (of_nat (approved ?r) / of_nat (total ?r))\<bar> \<le> (1 / 2 :: rat)"
  proof (cases "submissions = []")
    case True
    then show ?thesis by (simp add: getTemplateAnalytics_def Let_def)
  next
    case False
    then have "completionRate ?r = math_round (of_nat (approved ?r) / of_nat (total ?r) * 100)"
      by (simp add: getTemplateAnalytics_def Let_def)
    then show ?thesis
      using False math_round_near [of "of_nat (approved ?r) / of_nat (total ?r) * 100"]
      by (simp add: mult.commute)
  qed
  have sums: "sum_list (map duration (approvedSubmissions submissions)) =
      (\<Sum>s\<leftarrow>approvedSubmissions submissions. the (approvedAt s) - the (submittedAt s))"
    by (rule arg_cong [where f = sum_list], rule map_cong)
       (auto simp: approvedSubmissions_def duration_both)
  have avg: "avgApprovalTimeMs submissions =
        (let timed = filter (\<lambda>s. status s = ''APPROVED'' \<and> approvedAt s \<noteq> None \<and> submittedAt s \<noteq> None)
                       submissions
         in if timed = [] then 0
            else of_int (\<Sum>s\<leftarrow>timed. the (approvedAt s) - the (submittedAt s)) / of_nat (length timed))"
    using sums
    by (simp add: avgApprovalTimeMs_def Let_def foldl_duration approvedSubmissions_def)
  have label: "label_hours (avgApprovalTime ?r) =
        (if avgApprovalTimeMs submissions = 0 then None
         else Some \<lfloor>avgApprovalTimeMs submissions / 3600000\<rfloor>)"
    by (simp add: getTemplateAnalytics_def Let_def formatTime_hours)
  from len rows tot appr rate avg label show ?thesis by blast
qed

theorem level_stats_derivation_witness:
  "1 \<le> (2::int) \<and> 2 \<le> int (length flow_AB) \<and> three_subs \<noteq> [] \<and>
   levelStats (getTemplateAnalytics three_subs flow_AB) ! nat (2 - 1) =
     \<lparr>ls_level = 2,
      ls_approved = card {i. i < length three_subs \<and>
         (\<exists>h \<in> set (approvalHistory (three_subs ! i)). h_level h = 2 \<and> h_status h = ''APPROVED'')},
      ls_total = length three_subs\<rparr> \<and>
   \<bar>of_int (completionRate (getTemplateAnalytics three_subs flow_AB))
      - 100 * (of_nat (approved (getTemplateAnalytics three_subs flow_AB))
               / of_nat (total (getTemplateAnalytics three_subs flow_AB)))\<bar> \<le> (1 / 2 :: rat)"
proof -
  note stats = level_stats_derivation [of three_subs flow_AB]
  have h1: "1 \<le> (2::int) \<and> 2 \<le> int (length flow_AB)"
    by (simp add: flow_AB_def)
  have h2: "three_subs \<noteq> []"
    by (simp add: three_subs_def)
  from stats have "\<forall>L. 1 \<le> L \<and> L \<le> int (length flow_AB) \<longrightarrow>
        levelStats (getTemplateAnalytics three_subs flow_AB) ! nat (L - 1) =
          \<lparr>ls_level = L,
           ls_approved = card {i. i < length three_subs \<and>
              (\<exists>h \<in> set (approvalHistory (three_subs ! i)). h_level h = L \<and> h_status h = ''APPROVED'')},
           ls_total = length three_subs\<rparr>"
    by (rule conjunct1 [OF conjunct2])
  with h1 have row: "levelStats (getTemplateAnalytics three_subs flow_AB) ! nat (2 - 1) =
     \<lparr>ls_level = 2,
      ls_approved = card {i. i < length three_subs \<and>
         (\<exists>h \<in> set (approvalHistory (three_subs ! i)). h_level h = 2 \<and> h_status h = ''APPROVED'')},
      ls_total = length three_subs\<rparr>"
    by blast
  from stats have "if three_subs = []
       then completionRate (getTemplateAnalytics three_subs flow_AB) = 0
       else \<bar>of_int (completionRate (getTemplateAnalytics three_subs flow_AB))
              - 100 * (of_nat (approved (getTemplateAnalytics three_subs flow_AB))
                       / of_nat (total (getTemplateAnalytics three_subs flow_AB)))\<bar> \<le> (1 / 2 :: rat)"
    by (rule conjunct1 [OF conjunct2 [OF conjunct2 [OF conjunct2 [OF conjunct2]]]])
  with h2 have rate: "\<bar>of_int (completionRate (getTemplateAnalytics three_subs flow_AB))
      - 100 * (of_nat (approved (getTemplateAnalytics three_subs flow_AB))
               / of_nat (total (getTemplateAnalytics three_subs flow_AB)))\<bar> \<le> (1 / 2 :: rat)"
    by simp
  from h1 h2 row rate show ?thesis by blast
qed

text \<open>
  C8, as first stated for the completion rate: of the three submissions one is approved;
  the rate answered is 33, which is neither the quotient 1/3 nor, read as a percentage,
  equal to it.
\<close>

theorem completion_rate_counterexample:
  "approved (getTemplateAnalytics three_subs flow_AB) = 1 \<and>
   total (getTemplateAnalytics three_subs flow_AB) = 3 \<and>
   completionRate (getTemplateAnalytics three_subs flow_AB) = 33 \<and>
   (of_int (completionRate (getTemplateAnalytics three_subs flow_AB)) :: rat) \<noteq>
      of_nat (approved (getTemplateAnalytics three_subs flow_AB)) /
      of_nat (total (getTemplateAnalytics three_subs flow_AB)) \<and>
   (of_int (completionRate (getTemplateAnalytics three_subs flow_AB)) :: rat) / 100 \<noteq>
      of_nat (approved (getTemplateAnalytics three_subs flow_AB)) /
      of_nat (total (getTemplateAnalytics three_subs flow_AB))"
  by (simp add: getTemplateAnalytics_def three_subs_def pending_sub_def math_round_def Let_def
        floor_rat_numeral)

end
